theory Spec2Isabelle
  imports Main
begin

section \<open>Python values, exceptions and the session\<close>

text \<open>
  The web application of \<^verbatim>\<open>src/webapp/app.py\<close> keeps everything it knows about a
  browser in the Flask session, a dictionary from string keys to Python values, and
  talks to the identity provider through the MSAL library. The values that occur are
  strings, lists and dictionaries with string keys.
\<close>

datatype pyval =
    PNone
  | PBool bool
  | PInt int
  | PStr string
  | PList "pyval list"
  | PDict "(string \<times> pyval) list"

text \<open>Python's truth value of an object, as \<^verbatim>\<open>not x\<close> and \<^verbatim>\<open>if x\<close> read it.\<close>

fun truthy :: "pyval \<Rightarrow> bool" where
  "truthy PNone = False"
| "truthy (PBool b) = b"
| "truthy (PInt i) = (i \<noteq> 0)"
| "truthy (PStr s) = (s \<noteq> [])"
| "truthy (PList xs) = (xs \<noteq> [])"
| "truthy (PDict kvs) = (kvs \<noteq> [])"

text \<open>
  The exceptions that the handlers raise or let through. \<open>Unauthorized\<close> and
  \<open>Forbidden\<close> are werkzeug's HTTP exceptions and carry their optional description;
  \<open>RuntimeError\<close> stands for the class that \<^verbatim>\<open>except RuntimeError\<close> catches;
  \<open>OtherError\<close> is any other exception a library call may raise.
\<close>

datatype exn =
    KeyError
  | IndexError
  | TypeError
  | RuntimeError
  | Unauthorized "string option"
  | Forbidden "string option"
  | OtherError string

text \<open>\<^verbatim>\<open>d[k]\<close> for a string key: only a dictionary can be subscripted by a string.\<close>

fun getitem :: "pyval \<Rightarrow> string \<Rightarrow> exn + pyval" where
  "getitem (PDict kvs) k = (case map_of kvs k of None \<Rightarrow> Inl KeyError | Some v \<Rightarrow> Inr v)"
| "getitem PNone k = Inl TypeError"
| "getitem (PBool b) k = Inl TypeError"
| "getitem (PInt i) k = Inl TypeError"
| "getitem (PStr s) k = Inl TypeError"
| "getitem (PList xs) k = Inl TypeError"

text \<open>
  \<^verbatim>\<open>d[k] = v\<close> on a dictionary: an existing key keeps its place, a new key is added
  at the end.
\<close>

fun dict_set :: "(string \<times> pyval) list \<Rightarrow> string \<Rightarrow> pyval \<Rightarrow> (string \<times> pyval) list" where
  "dict_set [] k v = [(k, v)]"
| "dict_set (p # ps) k v = (if fst p = k then (k, v) # ps else p # dict_set ps k v)"

fun setitem :: "pyval \<Rightarrow> string \<Rightarrow> pyval \<Rightarrow> exn + pyval" where
  "setitem (PDict kvs) k v = Inr (PDict (dict_set kvs k v))"
| "setitem PNone k v = Inl TypeError"
| "setitem (PBool b) k v = Inl TypeError"
| "setitem (PInt i) k v = Inl TypeError"
| "setitem (PStr s) k v = Inl TypeError"
| "setitem (PList xs) k v = Inl TypeError"

text \<open>
  \<^verbatim>\<open>k in c\<close> for a string \<open>k\<close>: a key of a dictionary, an element of a list, a
  substring of a string; any other container raises TypeError.
\<close>

fun starts_with :: "string \<Rightarrow> string \<Rightarrow> bool" where
  "starts_with [] s = True"
| "starts_with (c # cs) [] = False"
| "starts_with (c # cs) (d # ds) = (c = d \<and> starts_with cs ds)"

fun substring :: "string \<Rightarrow> string \<Rightarrow> bool" where
  "substring k [] = (k = [])"
| "substring k (c # cs) = (starts_with k (c # cs) \<or> substring k cs)"

fun contains :: "pyval \<Rightarrow> string \<Rightarrow> exn + bool" where
  "contains (PDict kvs) k = Inr (k \<in> set (map fst kvs))"
| "contains (PList xs) k = Inr (PStr k \<in> set xs)"
| "contains (PStr s) k = Inr (substring k s)"
| "contains PNone k = Inl TypeError"
| "contains (PBool b) k = Inl TypeError"
| "contains (PInt i) k = Inl TypeError"

text \<open>
  The session. \<^verbatim>\<open>session.get(k)\<close> is \<open>s k\<close>, \<^verbatim>\<open>session[k] = v\<close> is
  \<open>s(k \<mapsto> v)\<close> and \<^verbatim>\<open>session.pop(k, None)\<close> is \<open>s(k := None)\<close>.
\<close>

type_synonym session = "string \<rightharpoonup> pyval"

text \<open>The truth value of \<^verbatim>\<open>session.get(k)\<close>: a missing key gives \<^verbatim>\<open>None\<close>.\<close>

definition truthy_get :: "session \<Rightarrow> string \<Rightarrow> bool" where
  "truthy_get s k = (case s k of None \<Rightarrow> False | Some v \<Rightarrow> truthy v)"

text \<open>
  \<^verbatim>\<open>http_cache = session.get("msal_http_response_cache", {})\<close> is the session's own
  object when the key is there, and a fresh dictionary otherwise. MSAL fills the
  dictionary in place, so what a library call did to it shows in the session at once
  when the session holds it, also on a path that never reaches the later assignment
  \<^verbatim>\<open>session["msal_http_response_cache"] = http_cache\<close>. A path that reaches the
  assignment stores the dictionary under the key in either case.
\<close>

definition get_http_cache :: "session \<Rightarrow> pyval" where
  "get_http_cache s =
     (case s ''msal_http_response_cache'' of None \<Rightarrow> PDict [] | Some h \<Rightarrow> h)"

definition filled_in_place :: "session \<Rightarrow> pyval \<Rightarrow> session" where
  "filled_in_place s h =
     (case s ''msal_http_response_cache'' of
        None \<Rightarrow> s
      | Some old \<Rightarrow> s(''msal_http_response_cache'' \<mapsto> h))"

section \<open>The collaborators: configuration, MSAL and the Graph endpoint\<close>

text \<open>
  Nothing of the library is in the repository, so the handlers take it as a parameter:
  the three configuration values, the token cache class (\<open>'tc\<close> is the cache object),
  the client class (\<open>'cl\<close> is the client object) and the HTTP request to Microsoft
  Graph. A call that can raise returns \<open>Inl\<close> of the exception. A call on a client
  returns, beside its outcome, the HTTP cache dictionary as the call leaves it, and a
  call that uses the token cache returns the cache object as it leaves it.
\<close>

record ('tc, 'cl) ext =
  CLIENT_ID :: pyval
  AUTHORITY :: pyval
  CLIENT_CREDENTIAL :: pyval
  SerializableTokenCache :: "'tc"
  deserialize :: "'tc \<Rightarrow> pyval \<Rightarrow> exn + 'tc"
  serialize :: "'tc \<Rightarrow> pyval"
  has_state_changed :: "'tc \<Rightarrow> bool"
  ConfidentialClientApplication ::
    "pyval \<Rightarrow> pyval \<Rightarrow> pyval option \<Rightarrow> 'tc option \<Rightarrow> pyval \<Rightarrow> (exn + 'cl) \<times> pyval"
  msal_initiate_auth_code_flow ::
    "'cl \<Rightarrow> string list \<Rightarrow> string \<Rightarrow> pyval \<Rightarrow> (exn + pyval) \<times> pyval"
  acquire_token_by_auth_code_flow ::
    "'cl \<Rightarrow> pyval \<Rightarrow> pyval \<Rightarrow> 'tc \<Rightarrow> pyval \<Rightarrow> (exn + pyval \<times> 'tc) \<times> pyval"
  get_accounts :: "'cl \<Rightarrow> 'tc \<Rightarrow> pyval \<Rightarrow> (exn + pyval list \<times> 'tc) \<times> pyval"
  acquire_token_silent ::
    "'cl \<Rightarrow> string list \<Rightarrow> pyval \<Rightarrow> 'tc \<Rightarrow> pyval \<Rightarrow> (exn + pyval \<times> 'tc) \<times> pyval"
  decode_id_token :: "pyval \<Rightarrow> exn + pyval"
  requests_get_json :: "string \<Rightarrow> pyval \<Rightarrow> exn + pyval"

section \<open>Requests and responses\<close>

datatype route = Index | AuthRedirect | Graph | Admin | Logout

text \<open>The rule each view is registered under, which is also what \<^verbatim>\<open>url_for\<close> builds.\<close>

fun url_rule :: "route \<Rightarrow> string" where
  "url_rule Index = ''/''"
| "url_rule AuthRedirect = ''/auth/redirect''"
| "url_rule Graph = ''/graph''"
| "url_rule Admin = ''/admin''"
| "url_rule Logout = ''/logout''"

text \<open>
  A request: the route it was matched to, its query parameters (\<^verbatim>\<open>request.args\<close>) and
  the scheme and host that \<^verbatim>\<open>url_for(..., _external=True)\<close> puts before a rule.
\<close>

record request =
  route :: route
  args :: pyval
  host_url :: string

datatype response =
    redirect pyval
  | render_template string "pyval option"
  | error_page nat

definition scopes :: "string list" where
  "scopes = [''https://graph.microsoft.com/User.Read'']"

section \<open>The error handler and the views\<close>

text \<open>
  A view or handler takes the session and returns the session as it leaves it, with
  either the response or the exception that ended it.
\<close>

text \<open>\<^verbatim>\<open>initiate_auth_code_flow\<close>, the handler registered for \<open>Unauthorized\<close> (lines 71-121).\<close>

definition initiate_auth_code_flow ::
  "('tc, 'cl) ext \<Rightarrow> request \<Rightarrow> session \<Rightarrow> session \<times> (exn + response)" where
  "initiate_auth_code_flow lib rq s0 =
     (let s1 = s0(''user'' := None);
          http_cache = get_http_cache s1
      in case ConfidentialClientApplication lib (CLIENT_ID lib) (AUTHORITY lib) None None http_cache of
           (Inl e, h1) \<Rightarrow> (filled_in_place s1 h1, Inl e)
         | (Inr msal_client, h1) \<Rightarrow>
             (case msal_initiate_auth_code_flow lib msal_client scopes
                     (host_url rq @ url_rule AuthRedirect) h1 of
                (Inl e, h2) \<Rightarrow> (filled_in_place s1 h2, Inl e)
              | (Inr flow, h2) \<Rightarrow>
                  (case setitem flow ''post_sign_in_url'' (PStr (url_rule (route rq))) of
                     Inl e \<Rightarrow> (filled_in_place s1 h2, Inl e)
                   | Inr auth_code_flow \<Rightarrow>
                       (let s2 = s1(''auth_code_flow'' \<mapsto> auth_code_flow);
                            s3 = s2(''msal_http_response_cache'' \<mapsto> h2)
                        in case getitem auth_code_flow ''auth_uri'' of
                             Inl e \<Rightarrow> (s3, Inl e)
                           | Inr uri \<Rightarrow> (s3, Inr (redirect uri))))))"

text \<open>\<^verbatim>\<open>index\<close> (lines 125-130).\<close>

definition index :: "session \<Rightarrow> session \<times> (exn + response)" where
  "index s = (s, Inr (render_template ''public/index.html'' None))"

text \<open>
  Lines 155-159 of \<^verbatim>\<open>authorized\<close>: a new token cache, filled from the session's blob
  when there is a truthy one.
\<close>

definition hydrate_token_cache :: "('tc, 'cl) ext \<Rightarrow> session \<Rightarrow> exn + 'tc" where
  "hydrate_token_cache lib s =
     (case s ''token_cache'' of
        None \<Rightarrow> Inr (SerializableTokenCache lib)
      | Some blob \<Rightarrow>
          if truthy blob then deserialize lib (SerializableTokenCache lib) blob
          else Inr (SerializableTokenCache lib))"

text \<open>
  Lines 183-199 of \<^verbatim>\<open>authorized\<close>: what happens once the exchange has returned
  \<open>result\<close>, with the token cache \<open>token_cache\<close> and the HTTP cache \<open>http_cache\<close>.
\<close>

definition persist_sign_in ::
  "('tc, 'cl) ext \<Rightarrow> pyval \<Rightarrow> pyval \<Rightarrow> 'tc \<Rightarrow> pyval \<Rightarrow> session \<Rightarrow> session \<times> (exn + response)" where
  "persist_sign_in lib auth_code_flow result token_cache http_cache s1 =
     (let s2 = s1(''token_cache'' \<mapsto> serialize lib token_cache);
          s3 = s2(''msal_http_response_cache'' \<mapsto> http_cache)
      in case getitem result ''id_token'' of
           Inl e \<Rightarrow> (s3, Inl e)
         | Inr id_token \<Rightarrow>
             (case getitem result ''id_token_claims'' of
                Inl e \<Rightarrow> (s3, Inl e)
              | Inr id_token_claims \<Rightarrow>
                  (let s4 = s3(''user'' \<mapsto>
                              PDict [(''id_token'', id_token), (''id_token_claims'', id_token_claims)])
                   in case getitem auth_code_flow ''post_sign_in_url'' of
                        Inl e \<Rightarrow> (s4, Inl e)
                      | Inr url \<Rightarrow> (s4, Inr (redirect url)))))"

text \<open>\<^verbatim>\<open>authorized\<close>, the view of \<^verbatim>\<open>/auth/redirect\<close> (lines 132-199).\<close>

definition authorized ::
  "('tc, 'cl) ext \<Rightarrow> request \<Rightarrow> session \<Rightarrow> session \<times> (exn + response)" where
  "authorized lib rq s0 =
     (case s0 ''auth_code_flow'' of
        None \<Rightarrow> (s0, Inl KeyError)
      | Some auth_code_flow \<Rightarrow>
          (let s1 = s0(''auth_code_flow'' := None)
           in case hydrate_token_cache lib s1 of
                Inl e \<Rightarrow> (s1, Inl e)
              | Inr token_cache \<Rightarrow>
                  (let http_cache = get_http_cache s1
                   in case ConfidentialClientApplication lib (CLIENT_ID lib) (AUTHORITY lib)
                             (Some (CLIENT_CREDENTIAL lib)) (Some token_cache) http_cache of
                        (Inl e, h1) \<Rightarrow> (filled_in_place s1 h1, Inl e)
                      | (Inr msal_client, h1) \<Rightarrow>
                          (case acquire_token_by_auth_code_flow lib msal_client auth_code_flow
                                  (args rq) token_cache h1 of
                             (Inl e, h2) \<Rightarrow> (filled_in_place s1 h2, Inl e)
                           | (Inr (result, token_cache'), h2) \<Rightarrow>
                               persist_sign_in lib auth_code_flow result token_cache' h2 s1))))"

text \<open>
  The check of the stored ID token that \<^verbatim>\<open>graph\<close> (lines 216-219) and \<^verbatim>\<open>admin\<close>
  (lines 307-310) both make; \<open>msg\<close> is the description each gives to \<open>Unauthorized\<close>.
  Only a RuntimeError is caught; the two subscripts stand inside the \<^verbatim>\<open>try\<close> and
  their errors pass through.
\<close>

definition check_id_token :: "('tc, 'cl) ext \<Rightarrow> string \<Rightarrow> session \<Rightarrow> exn + unit" where
  "check_id_token lib msg s =
     (case s ''user'' of
        None \<Rightarrow> Inl KeyError
      | Some user \<Rightarrow>
          (case getitem user ''id_token'' of
             Inl e \<Rightarrow> Inl e
           | Inr id_token \<Rightarrow>
               (case decode_id_token lib id_token of
                  Inl RuntimeError \<Rightarrow> Inl (Unauthorized (Some msg))
                | Inl e \<Rightarrow> Inl e
                | Inr claims \<Rightarrow> Inr ())))"

text \<open>
  Lines 265-291 of \<^verbatim>\<open>graph\<close>: what happens once the silent acquisition has returned
  \<open>result\<close>.
\<close>

definition call_graph ::
  "('tc, 'cl) ext \<Rightarrow> pyval \<Rightarrow> 'tc \<Rightarrow> pyval \<Rightarrow> session \<Rightarrow> session \<times> (exn + response)" where
  "call_graph lib result token_cache http_cache s0 =
     (let s1 = (if has_state_changed lib token_cache
                then s0(''token_cache'' \<mapsto> serialize lib token_cache) else s0);
          s2 = s1(''msal_http_response_cache'' \<mapsto> http_cache)
      in case getitem result ''access_token'' of
           Inl e \<Rightarrow> (s2, Inl e)
         | Inr access_token \<Rightarrow>
             (case requests_get_json lib ''https://graph.microsoft.com/v1.0/me'' access_token of
                Inl e \<Rightarrow> (s2, Inl e)
              | Inr response \<Rightarrow>
                  (s2, Inr (render_template ''authenticated/graph.html'' (Some response)))))"

text \<open>
  Lines 234-263 of \<^verbatim>\<open>graph\<close>: the token cache is read from the session, the client
  is built, and the first cached account is used for the silent acquisition.
\<close>

definition acquire_for_graph ::
  "('tc, 'cl) ext \<Rightarrow> session \<Rightarrow> session \<times> (exn + response)" where
  "acquire_for_graph lib s0 =
     (case s0 ''token_cache'' of
        None \<Rightarrow> (s0, Inl KeyError)
      | Some blob \<Rightarrow>
          (case deserialize lib (SerializableTokenCache lib) blob of
             Inl e \<Rightarrow> (s0, Inl e)
           | Inr token_cache \<Rightarrow>
               (let http_cache = get_http_cache s0
                in case ConfidentialClientApplication lib (CLIENT_ID lib) (AUTHORITY lib)
                          (Some (CLIENT_CREDENTIAL lib)) (Some token_cache) http_cache of
                     (Inl e, h1) \<Rightarrow> (filled_in_place s0 h1, Inl e)
                   | (Inr msal_client, h1) \<Rightarrow>
                       (case get_accounts lib msal_client token_cache h1 of
                          (Inl e, h2) \<Rightarrow> (filled_in_place s0 h2, Inl e)
                        | (Inr ([], tc1), h2) \<Rightarrow> (filled_in_place s0 h2, Inl IndexError)
                        | (Inr (account # others, tc1), h2) \<Rightarrow>
                            (case acquire_token_silent lib msal_client scopes account tc1 h2 of
                               (Inl e, h3) \<Rightarrow> (filled_in_place s0 h3, Inl e)
                             | (Inr (result, tc2), h3) \<Rightarrow>
                                 call_graph lib result tc2 h3 s0)))))"

text \<open>\<^verbatim>\<open>graph\<close>, the view of \<^verbatim>\<open>/graph\<close> (lines 201-291).\<close>

definition graph :: "('tc, 'cl) ext \<Rightarrow> session \<Rightarrow> session \<times> (exn + response)" where
  "graph lib s0 =
     (if \<not> truthy_get s0 ''user'' \<or> \<not> truthy_get s0 ''token_cache''
      then (s0, Inl (Unauthorized None))
      else case check_id_token lib ''ID Token expired or invalid'' s0 of
             Inl e \<Rightarrow> (s0, Inl e)
           | Inr ok \<Rightarrow> acquire_for_graph lib s0)"

text \<open>Lines 312-322 of \<^verbatim>\<open>admin\<close>: the role check on the stored claims.\<close>

definition check_admin_role :: "session \<Rightarrow> session \<times> (exn + response)" where
  "check_admin_role s0 =
     (case s0 ''user'' of
        None \<Rightarrow> (s0, Inl KeyError)
      | Some user \<Rightarrow>
          (case getitem user ''id_token_claims'' of
             Inl e \<Rightarrow> (s0, Inl e)
           | Inr user_claims \<Rightarrow>
               (case contains user_claims ''roles'' of
                  Inl e \<Rightarrow> (s0, Inl e)
                | Inr False \<Rightarrow> (s0, Inl (Forbidden (Some ''User is missing a required role.'')))
                | Inr True \<Rightarrow>
                    (case getitem user_claims ''roles'' of
                       Inl e \<Rightarrow> (s0, Inl e)
                     | Inr roles \<Rightarrow>
                         (case contains roles ''admin'' of
                            Inl e \<Rightarrow> (s0, Inl e)
                          | Inr False \<Rightarrow>
                              (s0, Inl (Forbidden (Some ''User is missing a required role.'')))
                          | Inr True \<Rightarrow>
                              (s0, Inr (render_template ''authenticated/admin.html''
                                          (Some user_claims))))))))"

text \<open>\<^verbatim>\<open>admin\<close>, the view of \<^verbatim>\<open>/admin\<close> (lines 293-322).\<close>

definition admin :: "('tc, 'cl) ext \<Rightarrow> session \<Rightarrow> session \<times> (exn + response)" where
  "admin lib s0 =
     (if \<not> truthy_get s0 ''user''
      then (s0, Inl (Unauthorized None))
      else case check_id_token lib ''ID Token expired or invalid.'' s0 of
             Inl e \<Rightarrow> (s0, Inl e)
           | Inr ok \<Rightarrow> check_admin_role s0)"

text \<open>\<^verbatim>\<open>logout\<close>, the view of \<^verbatim>\<open>/logout\<close> (lines 324-348).\<close>

definition logout :: "session \<Rightarrow> session \<times> (exn + response)" where
  "logout s0 =
     (let s1 = s0(''user'' := None);
          s2 = s1(''auth_code_flow'' := None);
          s3 = s2(''token_cache'' := None)
      in (s3, Inr (redirect (PStr (url_rule Index)))))"

section \<open>Dispatch\<close>

text \<open>The routes of \<^verbatim>\<open>create_app\<close>: each request goes to the view of its rule.\<close>

definition view ::
  "('tc, 'cl) ext \<Rightarrow> request \<Rightarrow> session \<Rightarrow> session \<times> (exn + response)" where
  "view lib rq s =
     (case route rq of
        Index \<Rightarrow> index s
      | AuthRedirect \<Rightarrow> authorized lib rq s
      | Graph \<Rightarrow> graph lib s
      | Admin \<Rightarrow> admin lib s
      | Logout \<Rightarrow> logout s)"

text \<open>
  What Flask makes of a view's outcome. An \<open>Unauthorized\<close> goes to the registered
  handler \<open>initiate_auth_code_flow\<close>, on the session as the view left it; an exception
  of the handler itself ends as a server error. A \<open>Forbidden\<close> has no handler and
  becomes the 403 page. Any other exception becomes the 500 page. The session is saved
  with the response in every case.
\<close>

definition handler_response :: "session \<times> (exn + response) \<Rightarrow> session \<times> response" where
  "handler_response out =
     (case out of
        (s, Inr r) \<Rightarrow> (s, r)
      | (s, Inl e) \<Rightarrow> (s, error_page 500))"

definition handle_request ::
  "('tc, 'cl) ext \<Rightarrow> request \<Rightarrow> session \<Rightarrow> session \<times> response" where
  "handle_request lib rq s =
     (case view lib rq s of
        (s', Inr r) \<Rightarrow> (s', r)
      | (s', Inl (Unauthorized d)) \<Rightarrow> handler_response (initiate_auth_code_flow lib rq s')
      | (s', Inl (Forbidden d)) \<Rightarrow> (s', error_page 403)
      | (s', Inl e) \<Rightarrow> (s', error_page 500))"

text \<open>A browser's successive requests, each on the session the one before left.\<close>

fun run :: "('tc, 'cl) ext \<Rightarrow> request list \<Rightarrow> session \<Rightarrow> session" where
  "run lib [] s = s"
| "run lib (rq # rqs) s = run lib rqs (fst (handle_request lib rq s))"

text \<open>
  The data model's invariant: the session does not hold a pending flow and a user at
  the same time.
\<close>

definition exclusive :: "session \<Rightarrow> bool" where
  "exclusive s = (s ''auth_code_flow'' = None \<or> s ''user'' = None)"

section \<open>A sample identity provider\<close>

text \<open>
  A concrete library to run the handlers on. Its token cache is the serialised text
  with the flag \<^verbatim>\<open>has_state_changed\<close>; its client is a unit value. Sign-in always
  succeeds and yields the ID token \<open>''valid''\<close> with the role \<open>admin\<close>; the ID token
  \<open>''expired''\<close> fails to decode with a RuntimeError.
\<close>

definition sample_flow :: "string \<Rightarrow> pyval" where
  "sample_flow redirect_uri =
     PDict [(''auth_uri'', PStr ''https://login.example/authorize''),
            (''state'', PStr ''xyz''),
            (''redirect_uri'', PStr redirect_uri)]"

definition sample_result :: pyval where
  "sample_result =
     PDict [(''access_token'', PStr ''at-1''),
            (''id_token'', PStr ''valid''),
            (''id_token_claims'', PDict [(''roles'', PList [PStr ''admin''])])]"

definition sample_ext :: "(string \<times> bool, unit) ext" where
  "sample_ext =
     \<lparr> CLIENT_ID = PStr ''client'',
       AUTHORITY = PStr ''https://login.example/tenant'',
       CLIENT_CREDENTIAL = PStr ''secret'',
       SerializableTokenCache = (''{}'', False),
       deserialize = (\<lambda>tc blob. case blob of PStr b \<Rightarrow> Inr (b, False) | _ \<Rightarrow> Inl TypeError),
       serialize = (\<lambda>tc. PStr (fst tc)),
       has_state_changed = snd,
       ConfidentialClientApplication = (\<lambda>cid auth cred tc h. (Inr (), h)),
       msal_initiate_auth_code_flow = (\<lambda>cl sc uri h. (Inr (sample_flow uri), h)),
       acquire_token_by_auth_code_flow =
         (\<lambda>cl flow params tc h. (Inr (sample_result, (''{at-1}'', True)), h)),
       get_accounts = (\<lambda>cl tc h. (Inr ([PDict [(''username'', PStr ''ada'')]], tc), h)),
       acquire_token_silent =
         (\<lambda>cl sc account tc h. (Inr (PDict [(''access_token'', PStr ''at-1'')], tc), h)),
       decode_id_token =
         (\<lambda>t. if t = PStr ''expired'' then Inl RuntimeError else Inr (PDict [])),
       requests_get_json = (\<lambda>url token. Inr (PDict [(''displayName'', PStr ''Ada'')])) \<rparr>"

text \<open>A request for a route, without query parameters, on the host of the sample.\<close>

definition get :: "route \<Rightarrow> request" where
  "get r = \<lparr> route = r, args = PDict [], host_url = ''https://app.example'' \<rparr>"

text \<open>The user record that a sign-in with the given ID token and claims stores.\<close>

definition user_record :: "pyval \<Rightarrow> pyval \<Rightarrow> pyval" where
  "user_record id_token id_token_claims =
     PDict [(''id_token'', id_token), (''id_token_claims'', id_token_claims)]"

text \<open>Libraries that differ from the sample in what the token cache holds.\<close>

definition no_account_ext :: "(string \<times> bool, unit) ext" where
  "no_account_ext = sample_ext\<lparr> get_accounts := (\<lambda>cl tc h. (Inr ([], tc), h)) \<rparr>"

definition no_token_ext :: "(string \<times> bool, unit) ext" where
  "no_token_ext =
     sample_ext\<lparr> acquire_token_silent := (\<lambda>cl sc account tc h. (Inr (PNone, tc), h)) \<rparr>"

definition refreshing_ext :: "(string \<times> bool, unit) ext" where
  "refreshing_ext =
     sample_ext\<lparr> acquire_token_silent :=
       (\<lambda>cl sc account tc h.
          (Inr (PDict [(''access_token'', PStr ''at-2'')], (''{at-2}'', True)), h)) \<rparr>"

definition quiet_ext :: "(string \<times> bool, unit) ext" where
  "quiet_ext =
     sample_ext\<lparr> acquire_token_silent :=
       (\<lambda>cl sc account tc h.
          (Inr (PDict [(''access_token'', PStr ''at-1'')], (''{at-1} '', False)), h)) \<rparr>"

text \<open>
  Sessions of the sample: after \<^verbatim>\<open>/admin\<close> was requested without a user, after the
  callback that followed, with an ID token that no longer decodes, and with claims
  that carry no role.
\<close>

definition admin_claims :: pyval where
  "admin_claims = PDict [(''roles'', PList [PStr ''admin''])]"

definition admin_flow :: pyval where
  "admin_flow =
     PDict [(''auth_uri'', PStr ''https://login.example/authorize''),
            (''state'', PStr ''xyz''),
            (''redirect_uri'', PStr ''https://app.example/auth/redirect''),
            (''post_sign_in_url'', PStr ''/admin'')]"

definition pending_admin :: session where
  "pending_admin =
     [''auth_code_flow'' \<mapsto> admin_flow, ''msal_http_response_cache'' \<mapsto> PDict []]"

definition signed_in :: session where
  "signed_in =
     [''token_cache'' \<mapsto> PStr ''{at-1}'',
      ''msal_http_response_cache'' \<mapsto> PDict [],
      ''user'' \<mapsto> user_record (PStr ''valid'') admin_claims]"

definition expired_session :: session where
  "expired_session = signed_in(''user'' \<mapsto> user_record (PStr ''expired'') admin_claims)"

definition reader_session :: session where
  "reader_session =
     signed_in(''user'' \<mapsto> user_record (PStr ''valid'') (PDict [(''name'', PStr ''Ada'')]))"

definition editor_session :: session where
  "editor_session =
     signed_in(''user'' \<mapsto>
       user_record (PStr ''valid'') (PDict [(''roles'', PList [PStr ''editor''])]))"

definition crowded_session :: session where
  "crowded_session =
     signed_in(''auth_code_flow'' \<mapsto> PDict [(''state'', PStr ''old'')],
               ''theme'' \<mapsto> PStr ''dark'')"

text \<open>
  A library whose decoder, given a text that is no token at all, fails with an
  IndexError before it comes to validate anything, and a session that holds such a
  text as its ID token.
\<close>

definition splitting_ext :: "(string \<times> bool, unit) ext" where
  "splitting_ext =
     sample_ext\<lparr> decode_id_token :=
       (\<lambda>t. if t = PStr ''garbled'' then Inl IndexError else decode_id_token sample_ext t) \<rparr>"

definition garbled_session :: session where
  "garbled_session = signed_in(''user'' \<mapsto> user_record (PStr ''garbled'') admin_claims)"

section \<open>Basic facts\<close>

lemmas sample_defs =
  sample_ext_def no_account_ext_def no_token_ext_def refreshing_ext_def quiet_ext_def
  get_def sample_flow_def sample_result_def user_record_def admin_claims_def scopes_def
  admin_flow_def pending_admin_def signed_in_def expired_session_def reader_session_def editor_session_def
  crowded_session_def splitting_ext_def garbled_session_def

lemmas handler_defs =
  handle_request_def handler_response_def view_def index_def authorized_def
  persist_sign_in_def hydrate_token_cache_def initiate_auth_code_flow_def graph_def
  acquire_for_graph_def call_graph_def admin_def check_id_token_def check_admin_role_def
  logout_def truthy_get_def get_http_cache_def filled_in_place_def

lemma sample_ext_simps:
  "SerializableTokenCache sample_ext = (''{}'', False)"
  "deserialize sample_ext tc (PStr b) = Inr (b, False)"
  "serialize sample_ext tc = PStr (fst tc)"
  "has_state_changed sample_ext tc = snd tc"
  "ConfidentialClientApplication sample_ext cid auth cred cache h = (Inr (), h)"
  "msal_initiate_auth_code_flow sample_ext cl sc uri h = (Inr (sample_flow uri), h)"
  "acquire_token_by_auth_code_flow sample_ext cl flow params tc h
     = (Inr (sample_result, (''{at-1}'', True)), h)"
  "get_accounts sample_ext cl tc h = (Inr ([PDict [(''username'', PStr ''ada'')]], tc), h)"
  "acquire_token_silent sample_ext cl sc account tc h
     = (Inr (PDict [(''access_token'', PStr ''at-1'')], tc), h)"
  "decode_id_token sample_ext (PStr ''valid'') = Inr (PDict [])"
  "decode_id_token sample_ext (PStr ''expired'') = Inl RuntimeError"
  by (simp_all add: sample_ext_def)

lemma filled_in_place_other:
  "k \<noteq> ''msal_http_response_cache'' \<Longrightarrow> filled_in_place s h k = s k"
  by (simp add: filled_in_place_def split: option.splits)

lemma get_http_cache_upd:
  "k \<noteq> ''msal_http_response_cache'' \<Longrightarrow> get_http_cache (s(k := v)) = get_http_cache s"
  by (simp add: get_http_cache_def)

lemma hydrate_token_cache_upd:
  "k \<noteq> ''token_cache'' \<Longrightarrow> hydrate_token_cache lib (s(k := v)) = hydrate_token_cache lib s"
  by (simp add: hydrate_token_cache_def)

lemma map_of_dict_set:
  "map_of (dict_set kvs k v) k' = (if k' = k then Some v else map_of kvs k')"
  by (induction kvs) auto

lemma getitem_user_truthy: "getitem user k = Inr v \<Longrightarrow> truthy user"
  by (cases user) (auto split: option.splits)

lemma check_id_token_ok:
  "s ''user'' = Some user \<Longrightarrow> getitem user ''id_token'' = Inr tok \<Longrightarrow>
   decode_id_token lib tok = Inr decoded \<Longrightarrow> check_id_token lib msg s = Inr ()"
  by (simp add: check_id_token_def)

lemma check_id_token_expired:
  "s ''user'' = Some user \<Longrightarrow> getitem user ''id_token'' = Inr tok \<Longrightarrow>
   decode_id_token lib tok = Inl RuntimeError \<Longrightarrow>
   check_id_token lib msg s = Inl (Unauthorized (Some msg))"
  by (simp add: check_id_token_def)

subsection \<open>What each handler leaves alone\<close>

lemma fst_handler_response: "fst (handler_response out) = fst out"
  by (cases out) (simp add: handler_response_def split: sum.splits)

lemma initiate_frame:
  "k \<noteq> ''user'' \<Longrightarrow> k \<noteq> ''auth_code_flow'' \<Longrightarrow> k \<noteq> ''msal_http_response_cache'' \<Longrightarrow>
   fst (initiate_auth_code_flow lib rq s) k = s k"
  by (simp add: initiate_auth_code_flow_def Let_def filled_in_place_other
           split: prod.splits sum.splits)

lemma initiate_user: "fst (initiate_auth_code_flow lib rq s) ''user'' = None"
  by (simp add: initiate_auth_code_flow_def Let_def filled_in_place_other
           split: prod.splits sum.splits)

lemma handle_request_cases:
  "fst (handle_request lib rq s) = fst (view lib rq s)
   \<or> fst (handle_request lib rq s) = fst (initiate_auth_code_flow lib rq (fst (view lib rq s)))"
proof (cases "view lib rq s")
  case (Pair s' out)
  show ?thesis
  proof (cases out)
    case (Inl e)
    with Pair show ?thesis
      by (cases e) (simp_all add: handle_request_def fst_handler_response)
  next
    case (Inr r)
    with Pair show ?thesis by (simp add: handle_request_def)
  qed
qed

lemma handle_request_frame:
  assumes "k \<noteq> ''user''" "k \<noteq> ''auth_code_flow''" "k \<noteq> ''msal_http_response_cache''"
  shows "fst (handle_request lib rq s) k = fst (view lib rq s) k"
  using handle_request_cases [of lib rq s] assms by (auto simp add: initiate_frame)

lemma call_graph_token_cache:
  "fst (call_graph lib result tc h s) ''token_cache'' =
     (if has_state_changed lib tc then Some (serialize lib tc) else s ''token_cache'')"
  by (simp add: call_graph_def Let_def split: sum.splits)

lemma call_graph_frame:
  "k \<noteq> ''token_cache'' \<Longrightarrow> k \<noteq> ''msal_http_response_cache'' \<Longrightarrow>
   fst (call_graph lib result tc h s) k = s k"
  by (simp add: call_graph_def Let_def split: sum.splits)

lemma call_graph_no_token:
  "getitem result ''access_token'' = Inl e \<Longrightarrow>
   snd (call_graph lib result tc h s) = Inl e \<and> (e = KeyError \<or> e = TypeError)"
  by (cases result) (auto simp add: call_graph_def Let_def split: option.splits)

lemma authorized_without_flow:
  "s ''auth_code_flow'' = None \<Longrightarrow> authorized lib rq s = (s, Inl KeyError)"
  by (simp add: authorized_def)

lemma persist_sign_in_frame:
  "k \<noteq> ''token_cache'' \<Longrightarrow> k \<noteq> ''msal_http_response_cache'' \<Longrightarrow> k \<noteq> ''user'' \<Longrightarrow>
   fst (persist_sign_in lib flow result tc h s) k = s k"
  by (simp add: persist_sign_in_def Let_def split: sum.splits)

lemma authorized_consumes_flow:
  "s ''auth_code_flow'' = Some flow \<Longrightarrow> fst (authorized lib rq s) ''auth_code_flow'' = None"
  by (simp add: authorized_def Let_def filled_in_place_other persist_sign_in_frame
           split: sum.splits prod.splits)

lemma acquire_for_graph_frame:
  "k \<noteq> ''token_cache'' \<Longrightarrow> k \<noteq> ''msal_http_response_cache'' \<Longrightarrow>
   fst (acquire_for_graph lib s) k = s k"
  by (simp add: acquire_for_graph_def Let_def filled_in_place_other call_graph_frame
           split: option.splits sum.splits prod.splits list.splits)

lemma graph_frame:
  "k \<noteq> ''token_cache'' \<Longrightarrow> k \<noteq> ''msal_http_response_cache'' \<Longrightarrow>
   fst (graph lib s) k = s k"
  by (simp add: graph_def acquire_for_graph_frame split: sum.splits)

lemma fst_check_admin_role: "fst (check_admin_role s) = s"
  by (simp add: check_admin_role_def split: option.splits sum.splits bool.splits)

lemma fst_admin: "fst (admin lib s) = s"
  by (simp add: admin_def fst_check_admin_role split: sum.splits)


subsection \<open>The invariant, step by step\<close>

lemma exclusive_view: "exclusive s \<Longrightarrow> exclusive (fst (view lib rq s))"
proof (cases "route rq")
  case Index
  assume "exclusive s"
  with Index show ?thesis by (simp add: view_def index_def)
next
  case AuthRedirect
  assume "exclusive s"
  with AuthRedirect show ?thesis
    by (cases "s ''auth_code_flow''")
       (simp_all add: view_def authorized_without_flow authorized_consumes_flow exclusive_def)
next
  case Graph
  assume "exclusive s"
  with Graph show ?thesis by (simp add: view_def exclusive_def graph_frame)
next
  case Admin
  assume "exclusive s"
  with Admin show ?thesis by (simp add: view_def fst_admin)
next
  case Logout
  then show ?thesis by (simp add: view_def logout_def exclusive_def)
qed

lemma exclusive_initiate: "exclusive (fst (initiate_auth_code_flow lib rq s))"
  by (simp add: exclusive_def initiate_user)

lemma exclusive_handle_request:
  "exclusive s \<Longrightarrow> exclusive (fst (handle_request lib rq s))"
  using handle_request_cases [of lib rq s] exclusive_view [of s lib rq]
    exclusive_initiate [of lib rq "fst (view lib rq s)"]
  by auto

lemma exclusive_run: "exclusive s \<Longrightarrow> exclusive (run lib rqs s)"
  by (induction rqs arbitrary: s) (simp_all add: exclusive_handle_request)

section \<open>Sign-in: the two legs of the flow\<close>

lemma admin_request_starts_pending:
  "handle_request sample_ext (get Admin) Map.empty =
     (pending_admin, redirect (PStr ''https://login.example/authorize''))"
  by (auto simp add: handler_defs sample_defs fun_eq_iff)

text \<open>
  Claim C1. A callback on \<^verbatim>\<open>/auth/redirect\<close> whose session holds a pending flow, and
  whose code exchange returns a result with the ID token and its claims, leaves the
  serialised token cache in the session (non-empty where the library's serialisation
  is), stores the user record made of the raw ID token and the decoded claims, removes
  the pending flow, and answers with a redirect to the target that the flow recorded
  under \<^verbatim>\<open>post_sign_in_url\<close>.
\<close>

theorem callback_success:
  assumes "route rq = AuthRedirect"
    and "s ''auth_code_flow'' = Some auth_code_flow"
    and "getitem auth_code_flow ''post_sign_in_url'' = Inr target"
    and "hydrate_token_cache lib s = Inr cache"
    and "ConfidentialClientApplication lib (CLIENT_ID lib) (AUTHORITY lib)
           (Some (CLIENT_CREDENTIAL lib)) (Some cache) (get_http_cache s) = (Inr msal_client, http)"
    and "acquire_token_by_auth_code_flow lib msal_client auth_code_flow (args rq) cache http
           = (Inr (result, cache'), http')"
    and "getitem result ''id_token'' = Inr id_token"
    and "getitem result ''id_token_claims'' = Inr id_token_claims"
    and "truthy (serialize lib cache')"
  shows "handle_request lib rq s =
           (s(''auth_code_flow'' := None,
              ''token_cache'' \<mapsto> serialize lib cache',
              ''msal_http_response_cache'' \<mapsto> http',
              ''user'' \<mapsto> user_record id_token id_token_claims),
            redirect target)
         \<and> truthy_get (fst (handle_request lib rq s)) ''token_cache''
         \<and> fst (handle_request lib rq s) ''user'' = Some (user_record id_token id_token_claims)
         \<and> getitem (user_record id_token id_token_claims) ''id_token'' = Inr id_token
         \<and> getitem (user_record id_token id_token_claims) ''id_token_claims'' = Inr id_token_claims"
proof -
  have p: "persist_sign_in lib auth_code_flow result cache' http' (s(''auth_code_flow'' := None)) =
           (s(''auth_code_flow'' := None,
              ''token_cache'' \<mapsto> serialize lib cache',
              ''msal_http_response_cache'' \<mapsto> http',
              ''user'' \<mapsto> user_record id_token id_token_claims),
            Inr (redirect target))"
    using assms(3,7,8) by (simp add: persist_sign_in_def user_record_def)
  have a: "authorized lib rq s =
             persist_sign_in lib auth_code_flow result cache' http' (s(''auth_code_flow'' := None))"
    using assms(2,4,5,6)
    by (simp add: authorized_def hydrate_token_cache_upd get_http_cache_upd)
  have h: "handle_request lib rq s =
           (s(''auth_code_flow'' := None,
              ''token_cache'' \<mapsto> serialize lib cache',
              ''msal_http_response_cache'' \<mapsto> http',
              ''user'' \<mapsto> user_record id_token id_token_claims),
            redirect target)"
    using assms(1) by (simp add: handle_request_def view_def a p)
  show ?thesis
    using assms(9) by (simp add: h truthy_get_def user_record_def)
qed

text \<open>
  The sample: \<^verbatim>\<open>/admin\<close> is requested with an empty session, and the callback that
  follows ends signed in, with a redirect to \<^verbatim>\<open>/admin\<close>.
\<close>

theorem callback_success_witness:
  "handle_request sample_ext (get AuthRedirect)
      (fst (handle_request sample_ext (get Admin) Map.empty))
     = (signed_in, redirect (PStr ''/admin''))
   \<and> signed_in ''token_cache'' = Some (PStr ''{at-1}'')
   \<and> signed_in ''user'' = Some (user_record (PStr ''valid'') admin_claims)
   \<and> signed_in ''auth_code_flow'' = None"
proof -
  have s: "fst (handle_request sample_ext (get Admin) Map.empty) = pending_admin"
    by (simp add: admin_request_starts_pending)
  have m: "pending_admin(''auth_code_flow'' := None,
             ''token_cache'' \<mapsto> PStr ''{at-1}'',
             ''msal_http_response_cache'' \<mapsto> PDict [],
             ''user'' \<mapsto> user_record (PStr ''valid'') admin_claims) = signed_in"
    by (auto simp add: fun_eq_iff pending_admin_def signed_in_def)
  have 1: "route (get AuthRedirect) = AuthRedirect"
    by (simp add: get_def)
  have 2: "pending_admin ''auth_code_flow'' = Some admin_flow"
    by (simp add: pending_admin_def)
  have 3: "getitem admin_flow ''post_sign_in_url'' = Inr (PStr ''/admin'')"
    by (simp add: admin_flow_def)
  have 4: "hydrate_token_cache sample_ext pending_admin = Inr (''{}'', False)"
    by (simp add: hydrate_token_cache_def pending_admin_def sample_ext_simps)
  have 5: "ConfidentialClientApplication sample_ext (CLIENT_ID sample_ext) (AUTHORITY sample_ext)
             (Some (CLIENT_CREDENTIAL sample_ext)) (Some (''{}'', False))
             (get_http_cache pending_admin) = (Inr (), PDict [])"
    by (simp add: get_http_cache_def pending_admin_def sample_ext_simps)
  have 6: "acquire_token_by_auth_code_flow sample_ext () admin_flow (args (get AuthRedirect))
             (''{}'', False) (PDict []) = (Inr (sample_result, (''{at-1}'', True)), PDict [])"
    by (simp add: sample_ext_simps)
  have 7: "getitem sample_result ''id_token'' = Inr (PStr ''valid'')"
    by (simp add: sample_result_def)
  have 8: "getitem sample_result ''id_token_claims'' = Inr admin_claims"
    by (simp add: sample_result_def admin_claims_def)
  have 9: "truthy (serialize sample_ext (''{at-1}'', True))"
    by (simp add: sample_ext_simps)
  from callback_success [where s = pending_admin, OF 1 2 3 4 5 6 7 8 9]
  have "handle_request sample_ext (get AuthRedirect) pending_admin
          = (signed_in, redirect (PStr ''/admin''))"
    by (simp add: m sample_ext_simps)
  then show ?thesis
    by (simp add: s signed_in_def)
qed

text \<open>
  Claim C2. A request to a protected route (\<^verbatim>\<open>/graph\<close> or \<^verbatim>\<open>/admin\<close>) whose
  session has no user entry is answered, once the library has built the flow, with a
  redirect to the flow's \<^verbatim>\<open>auth_uri\<close>, the authorization endpoint of the identity
  provider; the flow is stored in the session under \<^verbatim>\<open>auth_code_flow\<close>, with the
  rule of the requested route as its \<^verbatim>\<open>post_sign_in_url\<close>.
\<close>

theorem protected_route_starts_flow:
  assumes "route rq = Graph \<or> route rq = Admin"
    and "s ''user'' = None"
    and "ConfidentialClientApplication lib (CLIENT_ID lib) (AUTHORITY lib) None None
           (get_http_cache s) = (Inr msal_client, http)"
    and "msal_initiate_auth_code_flow lib msal_client scopes
           (host_url rq @ url_rule AuthRedirect) http = (Inr (PDict flow), http')"
    and "map_of flow ''auth_uri'' = Some uri"
  shows "snd (handle_request lib rq s) = redirect uri
         \<and> fst (handle_request lib rq s) ''auth_code_flow''
             = Some (PDict (dict_set flow ''post_sign_in_url'' (PStr (url_rule (route rq)))))
         \<and> getitem (PDict (dict_set flow ''post_sign_in_url'' (PStr (url_rule (route rq)))))
               ''post_sign_in_url'' = Inr (PStr (url_rule (route rq)))"
proof -
  have v: "view lib rq s = (s, Inl (Unauthorized None))"
    using assms(1,2) by (auto simp add: view_def graph_def admin_def truthy_get_def)
  have u: "s(''user'' := None) = s"
    using assms(2) by (simp add: fun_upd_idem)
  have i: "initiate_auth_code_flow lib rq s =
             (s(''auth_code_flow'' \<mapsto>
                  PDict (dict_set flow ''post_sign_in_url'' (PStr (url_rule (route rq)))),
                ''msal_http_response_cache'' \<mapsto> http'),
              Inr (redirect uri))"
    using assms(3-5) by (simp add: initiate_auth_code_flow_def u map_of_dict_set)
  show ?thesis
    by (simp add: handle_request_def v i handler_response_def map_of_dict_set)
qed

text \<open>The sample: \<^verbatim>\<open>/graph\<close> requested with an empty session.\<close>

theorem protected_route_starts_flow_witness:
  "snd (handle_request sample_ext (get Graph) Map.empty)
     = redirect (PStr ''https://login.example/authorize'')
   \<and> fst (handle_request sample_ext (get Graph) Map.empty) ''auth_code_flow''
     = Some (PDict [(''auth_uri'', PStr ''https://login.example/authorize''),
                    (''state'', PStr ''xyz''),
                    (''redirect_uri'', PStr ''https://app.example/auth/redirect''),
                    (''post_sign_in_url'', PStr ''/graph'')])"
proof -
  have 1: "route (get Graph) = Graph \<or> route (get Graph) = Admin"
    by (simp add: get_def)
  have 2: "(Map.empty :: session) ''user'' = None"
    by simp
  have 3: "ConfidentialClientApplication sample_ext (CLIENT_ID sample_ext) (AUTHORITY sample_ext)
             None None (get_http_cache Map.empty) = (Inr (), PDict [])"
    by (simp add: get_http_cache_def sample_ext_simps)
  have 4: "msal_initiate_auth_code_flow sample_ext () scopes
             (host_url (get Graph) @ url_rule AuthRedirect) (PDict [])
           = (Inr (PDict [(''auth_uri'', PStr ''https://login.example/authorize''),
                          (''state'', PStr ''xyz''),
                          (''redirect_uri'', PStr ''https://app.example/auth/redirect'')]),
              PDict [])"
    by (simp add: sample_ext_simps sample_flow_def get_def)
  have 5: "map_of [(''auth_uri'', PStr ''https://login.example/authorize''),
                   (''state'', PStr ''xyz''),
                   (''redirect_uri'', PStr ''https://app.example/auth/redirect'')] ''auth_uri''
           = Some (PStr ''https://login.example/authorize'')"
    by simp
  from protected_route_starts_flow [where s = Map.empty, OF 1 2 3 4 5] show ?thesis
    by (simp add: get_def)
qed

section \<open>The callback without a pending flow\<close>

text \<open>
  Claim C3, as the code has it. A request to \<^verbatim>\<open>/auth/redirect\<close> whose session
  holds no pending flow performs no token exchange and leaves the session as it was.
  It is not treated as unauthenticated: \<^verbatim>\<open>session.pop("auth_code_flow")\<close> raises a
  KeyError that nothing catches, the response is the server error page, and no new
  flow is started. The outcome does not depend on what the exchange would return.
\<close>

theorem callback_without_flow:
  "route rq = AuthRedirect \<Longrightarrow> s ''auth_code_flow'' = None \<Longrightarrow>
     view lib rq s = (s, Inl KeyError)
     \<and> handle_request lib rq s = (s, error_page 500)
     \<and> handle_request (lib\<lparr>acquire_token_by_auth_code_flow := exchange\<rparr>) rq s
         = handle_request lib rq s"
  by (simp add: handle_request_def view_def authorized_def)

text \<open>The sample: the callback is replayed after the sign-in has completed.\<close>

theorem callback_without_flow_witness:
  "view sample_ext (get AuthRedirect) signed_in = (signed_in, Inl KeyError)
   \<and> handle_request sample_ext (get AuthRedirect) signed_in = (signed_in, error_page 500)"
proof -
  have 1: "route (get AuthRedirect) = AuthRedirect"
    by (simp add: get_def)
  have 2: "signed_in ''auth_code_flow'' = None"
    by (simp add: signed_in_def)
  from callback_without_flow [where s = signed_in and lib = sample_ext
      and exchange = "acquire_token_by_auth_code_flow sample_ext", OF 1 2]
  show ?thesis by simp
qed

text \<open>
  Against the claim as stated: on the replayed callback the response is the server
  error page, where the handler that begins a flow would have answered with the
  redirect to the identity provider and stored a pending flow.
\<close>

theorem callback_without_flow_counterexample:
  "signed_in ''auth_code_flow'' = None
   \<and> snd (handle_request sample_ext (get AuthRedirect) signed_in) = error_page 500
   \<and> fst (handle_request sample_ext (get AuthRedirect) signed_in) ''auth_code_flow'' = None
   \<and> snd (handler_response (initiate_auth_code_flow sample_ext (get AuthRedirect) signed_in))
       = redirect (PStr ''https://login.example/authorize'')
   \<and> handle_request sample_ext (get AuthRedirect) signed_in
       \<noteq> handler_response (initiate_auth_code_flow sample_ext (get AuthRedirect) signed_in)"
proof -
  have a: "handle_request sample_ext (get AuthRedirect) signed_in = (signed_in, error_page 500)"
    by (simp add: handle_request_def view_def authorized_def get_def signed_in_def)
  have b: "snd (handler_response (initiate_auth_code_flow sample_ext (get AuthRedirect) signed_in))
             = redirect (PStr ''https://login.example/authorize'')"
    by (simp add: handler_response_def initiate_auth_code_flow_def get_http_cache_def
          sample_ext_simps sample_flow_def signed_in_def)
  have c: "signed_in ''auth_code_flow'' = None"
    by (simp add: signed_in_def)
  have d: "handle_request sample_ext (get AuthRedirect) signed_in
       \<noteq> handler_response (initiate_auth_code_flow sample_ext (get AuthRedirect) signed_in)"
  proof
    assume "handle_request sample_ext (get AuthRedirect) signed_in
       = handler_response (initiate_auth_code_flow sample_ext (get AuthRedirect) signed_in)"
    then have "snd (handle_request sample_ext (get AuthRedirect) signed_in)
       = snd (handler_response (initiate_auth_code_flow sample_ext (get AuthRedirect) signed_in))"
      by simp
    then show False by (simp add: a b)
  qed
  from a b c d show ?thesis by simp
qed

section \<open>The gate of the protected routes\<close>




text \<open>
  Claim C6. On \<^verbatim>\<open>/admin\<close>, a session with a user whose ID token decodes, and whose
  claims have no \<^verbatim>\<open>roles\<close> entry or a \<^verbatim>\<open>roles\<close> array without \<^verbatim>\<open>admin\<close>,
  ends with \<open>Forbidden\<close>: the response is the 403 page, the session is untouched, and
  the response is no redirect.
\<close>

theorem admin_without_role_forbidden:
  assumes "route rq = Admin"
    and "s ''user'' = Some user"
    and "getitem user ''id_token'' = Inr tok"
    and "decode_id_token lib tok = Inr decoded"
    and "getitem user ''id_token_claims'' = Inr (PDict claims)"
    and "map_of claims ''roles'' = None
         \<or> (\<exists>roles. map_of claims ''roles'' = Some (PList roles) \<and> PStr ''admin'' \<notin> set roles)"
  shows "view lib rq s = (s, Inl (Forbidden (Some ''User is missing a required role.'')))
         \<and> handle_request lib rq s = (s, error_page 403)
         \<and> (\<forall>uri. snd (handle_request lib rq s) \<noteq> redirect uri)"
proof -
  have t: "truthy_get s ''user''"
    using assms(2,3) by (simp add: truthy_get_def getitem_user_truthy)
  have c: "check_id_token lib ''ID Token expired or invalid.'' s = Inr ()"
    using assms(2-4) by (rule check_id_token_ok)
  have r: "check_admin_role s = (s, Inl (Forbidden (Some ''User is missing a required role.'')))"
    using assms(6)
  proof
    assume "map_of claims ''roles'' = None"
    then have "''roles'' \<notin> set (map fst claims)"
      by (simp add: map_of_eq_None_iff)
    then show ?thesis
      using assms(2,5) by (simp add: check_admin_role_def)
  next
    assume "\<exists>roles. map_of claims ''roles'' = Some (PList roles) \<and> PStr ''admin'' \<notin> set roles"
    then obtain roles where m: "map_of claims ''roles'' = Some (PList roles)"
      and n: "PStr ''admin'' \<notin> set roles" by blast
    from m have "''roles'' \<in> set (map fst claims)"
      by (metis map_of_eq_None_iff option.distinct(1) set_map)
    then show ?thesis
      using assms(2,5) m n by (simp add: check_admin_role_def)
  qed
  have v: "view lib rq s = (s, Inl (Forbidden (Some ''User is missing a required role.'')))"
    using assms(1) t c r by (simp add: view_def admin_def)
  then show ?thesis
    by (simp add: handle_request_def)
qed

text \<open>
  The sample: a user whose only role is \<^verbatim>\<open>editor\<close>, and a user whose claims
  carry no roles at all.
\<close>

theorem admin_without_role_forbidden_witness:
  "handle_request sample_ext (get Admin) editor_session = (editor_session, error_page 403)
   \<and> handle_request sample_ext (get Admin) reader_session = (reader_session, error_page 403)"
proof -
  have 1: "route (get Admin) = Admin"
    by (simp add: get_def)
  have 4: "decode_id_token sample_ext (PStr ''valid'') = Inr (PDict [])"
    by (simp add: sample_ext_simps)
  have 3: "getitem (user_record (PStr ''valid'') claims) ''id_token'' = Inr (PStr ''valid'')"
    for claims
    by (simp add: user_record_def)
  have 5: "getitem (user_record (PStr ''valid'') claims) ''id_token_claims'' = Inr claims"
    for claims
    by (simp add: user_record_def)
  have e2: "editor_session ''user''
             = Some (user_record (PStr ''valid'') (PDict [(''roles'', PList [PStr ''editor''])]))"
    by (simp add: editor_session_def)
  have e6: "map_of [(''roles'', PList [PStr ''editor''])] ''roles'' = None
           \<or> (\<exists>roles. map_of [(''roles'', PList [PStr ''editor''])] ''roles'' = Some (PList roles)
                  \<and> PStr ''admin'' \<notin> set roles)"
    by simp
  have r2: "reader_session ''user''
             = Some (user_record (PStr ''valid'') (PDict [(''name'', PStr ''Ada'')]))"
    by (simp add: reader_session_def)
  have r6: "map_of [(''name'', PStr ''Ada'')] ''roles'' = None
           \<or> (\<exists>roles. map_of [(''name'', PStr ''Ada'')] ''roles'' = Some (PList roles)
                  \<and> PStr ''admin'' \<notin> set roles)"
    by simp
  have e: "handle_request sample_ext (get Admin) editor_session = (editor_session, error_page 403)"
    using admin_without_role_forbidden [where s = editor_session, OF 1 e2 3 4 5 e6] by simp
  have r: "handle_request sample_ext (get Admin) reader_session = (reader_session, error_page 403)"
    using admin_without_role_forbidden [where s = reader_session, OF 1 r2 3 4 5 r6] by simp
  from e r show ?thesis by simp
qed

text \<open>
  Claim C7, as the code has it. On a protected route, a session whose stored ID token
  fails to decode with a RuntimeError, which is what the library raises for a token
  that has expired or does not validate, ends as the same session without its user
  entry does: the view raises \<open>Unauthorized\<close>, the handler that begins the flow
  answers, and session and response are the same in both cases. Only a RuntimeError
  is caught. Any other exception of the decoder passes through the view (on
  \<^verbatim>\<open>/graph\<close> once the token cache entry is there), with the session untouched and
  the user entry kept, and a KeyError, IndexError, TypeError or other plain error ends
  as the server error page.
\<close>

theorem expired_token_like_no_user:
  assumes "route rq = Graph \<or> route rq = Admin"
    and "s ''user'' = Some user"
    and "getitem user ''id_token'' = Inr tok"
  shows "(decode_id_token lib tok = Inl RuntimeError \<longrightarrow>
            (\<exists>d. view lib rq s = (s, Inl (Unauthorized d)))
            \<and> view lib rq (s(''user'' := None)) = (s(''user'' := None), Inl (Unauthorized None))
            \<and> handle_request lib rq s = handler_response (initiate_auth_code_flow lib rq s)
            \<and> handle_request lib rq s = handle_request lib rq (s(''user'' := None)))
         \<and> (decode_id_token lib tok = Inl e \<and> e \<noteq> RuntimeError
              \<and> (route rq = Graph \<longrightarrow> truthy_get s ''token_cache'') \<longrightarrow>
            view lib rq s = (s, Inl e)
            \<and> (e = KeyError \<or> e = IndexError \<or> e = TypeError \<or> (\<exists>m. e = OtherError m) \<longrightarrow>
                 handle_request lib rq s = (s, error_page 500)))"
proof (intro conjI impI)
  assume x: "decode_id_token lib tok = Inl RuntimeError"
  have c: "check_id_token lib msg s = Inl (Unauthorized (Some msg))" for msg
    using assms(2,3) x by (rule check_id_token_expired)
  show v: "\<exists>d. view lib rq s = (s, Inl (Unauthorized d))"
    using assms(1) c by (auto simp add: view_def graph_def admin_def)
  show n: "view lib rq (s(''user'' := None)) = (s(''user'' := None), Inl (Unauthorized None))"
    using assms(1) by (auto simp add: view_def graph_def admin_def truthy_get_def)
  have i: "initiate_auth_code_flow lib rq (s(''user'' := None)) = initiate_auth_code_flow lib rq s"
    by (simp add: initiate_auth_code_flow_def)
  from v obtain d where "view lib rq s = (s, Inl (Unauthorized d))" ..
  then show h: "handle_request lib rq s = handler_response (initiate_auth_code_flow lib rq s)"
    by (simp add: handle_request_def)
  from n have "handle_request lib rq (s(''user'' := None)) =
      handler_response (initiate_auth_code_flow lib rq (s(''user'' := None)))"
    by (simp add: handle_request_def)
  with h i show "handle_request lib rq s = handle_request lib rq (s(''user'' := None))"
    by simp
next
  assume y: "decode_id_token lib tok = Inl e \<and> e \<noteq> RuntimeError
              \<and> (route rq = Graph \<longrightarrow> truthy_get s ''token_cache'')"
  have t: "truthy_get s ''user''"
    using assms(2,3) by (simp add: truthy_get_def getitem_user_truthy)
  have c: "check_id_token lib msg s = Inl e" for msg
    using assms(2,3) y by (cases e) (simp_all add: check_id_token_def)
  show v: "view lib rq s = (s, Inl e)"
    using assms(1) y t c by (auto simp add: view_def graph_def admin_def)
  assume "e = KeyError \<or> e = IndexError \<or> e = TypeError \<or> (\<exists>m. e = OtherError m)"
  then show "handle_request lib rq s = (s, error_page 500)"
    by (auto simp add: handle_request_def v)
qed

text \<open>
  The sample: the session of a completed sign-in whose ID token has expired, and the
  session whose ID token is no token, on a library that fails on it with an IndexError.
\<close>

theorem expired_token_like_no_user_witness:
  "handle_request sample_ext (get Admin) expired_session
     = handle_request sample_ext (get Admin) (expired_session(''user'' := None))
   \<and> snd (handle_request sample_ext (get Admin) expired_session)
     = redirect (PStr ''https://login.example/authorize'')
   \<and> fst (handle_request sample_ext (get Admin) expired_session) ''user'' = None
   \<and> view splitting_ext (get Admin) garbled_session = (garbled_session, Inl IndexError)
   \<and> handle_request splitting_ext (get Admin) garbled_session
     = (garbled_session, error_page 500)"
proof -
  have 1: "route (get Admin) = Graph \<or> route (get Admin) = Admin"
    by (simp add: get_def)
  have 2: "expired_session ''user'' = Some (user_record (PStr ''expired'') admin_claims)"
    by (simp add: expired_session_def)
  have 3: "getitem (user_record (PStr ''expired'') admin_claims) ''id_token''
             = Inr (PStr ''expired'')"
    by (simp add: user_record_def)
  have 4: "decode_id_token sample_ext (PStr ''expired'') = Inl RuntimeError"
    by (simp add: sample_ext_simps)
  have 5: "snd (handler_response (initiate_auth_code_flow sample_ext (get Admin) expired_session))
             = redirect (PStr ''https://login.example/authorize'')"
    by (simp add: handler_response_def initiate_auth_code_flow_def get_http_cache_def
          sample_ext_simps sample_flow_def expired_session_def signed_in_def)
  note r = expired_token_like_no_user [where s = expired_session and lib = sample_ext
      and e = RuntimeError, OF 1 2 3]
  from r 4 have e: "handle_request sample_ext (get Admin) expired_session
      = handler_response (initiate_auth_code_flow sample_ext (get Admin) expired_session)"
    by blast
  from r 4 have f: "handle_request sample_ext (get Admin) expired_session
      = handle_request sample_ext (get Admin) (expired_session(''user'' := None))"
    by blast
  have g2: "garbled_session ''user'' = Some (user_record (PStr ''garbled'') admin_claims)"
    by (simp add: garbled_session_def)
  have g3: "getitem (user_record (PStr ''garbled'') admin_claims) ''id_token''
             = Inr (PStr ''garbled'')"
    by (simp add: user_record_def)
  have g4: "decode_id_token splitting_ext (PStr ''garbled'') = Inl IndexError
              \<and> IndexError \<noteq> RuntimeError
              \<and> (route (get Admin) = Graph \<longrightarrow> truthy_get garbled_session ''token_cache'')"
    by (simp add: splitting_ext_def get_def)
  note q = expired_token_like_no_user [where s = garbled_session and lib = splitting_ext
      and e = IndexError, OF 1 g2 g3]
  from q g4 have k: "view splitting_ext (get Admin) garbled_session
      = (garbled_session, Inl IndexError)"
    by blast
  from q g4 have l: "handle_request splitting_ext (get Admin) garbled_session
      = (garbled_session, error_page 500)"
    by blast
  show ?thesis
  proof (intro conjI)
    show "handle_request sample_ext (get Admin) expired_session
      = handle_request sample_ext (get Admin) (expired_session(''user'' := None))"
      by (rule f)
    show "snd (handle_request sample_ext (get Admin) expired_session)
      = redirect (PStr ''https://login.example/authorize'')"
      by (simp add: e 5)
    show "fst (handle_request sample_ext (get Admin) expired_session) ''user'' = None"
      by (simp add: e fst_handler_response initiate_user)
    show "view splitting_ext (get Admin) garbled_session = (garbled_session, Inl IndexError)"
      by (rule k)
    show "handle_request splitting_ext (get Admin) garbled_session
      = (garbled_session, error_page 500)"
      by (rule l)
  qed
qed

text \<open>
  Against the claim as stated: a stored ID token that fails to decode with an
  IndexError is not treated as a missing user. On \<^verbatim>\<open>/admin\<close> and on \<^verbatim>\<open>/graph\<close>
  the response is the server error page and the user entry stays, where the same
  session without its user entry is answered with the redirect that begins the flow.
\<close>

theorem expired_token_like_no_user_counterexample:
  "decode_id_token splitting_ext (PStr ''garbled'') = Inl IndexError
   \<and> snd (handle_request splitting_ext (get Admin) garbled_session) = error_page 500
   \<and> fst (handle_request splitting_ext (get Admin) garbled_session) ''user''
       = Some (user_record (PStr ''garbled'') admin_claims)
   \<and> snd (handle_request splitting_ext (get Admin) (garbled_session(''user'' := None)))
       = redirect (PStr ''https://login.example/authorize'')
   \<and> snd (handle_request splitting_ext (get Graph) garbled_session) = error_page 500
   \<and> fst (handle_request splitting_ext (get Graph) garbled_session) ''user''
       = Some (user_record (PStr ''garbled'') admin_claims)
   \<and> snd (handle_request splitting_ext (get Graph) (garbled_session(''user'' := None)))
       = redirect (PStr ''https://login.example/authorize'')
   \<and> handle_request splitting_ext (get Admin) garbled_session
       \<noteq> handle_request splitting_ext (get Admin) (garbled_session(''user'' := None))"
proof -
  have d: "decode_id_token splitting_ext (PStr ''garbled'') = Inl IndexError"
    by (simp add: splitting_ext_def)
  have c: "check_id_token splitting_ext msg garbled_session = Inl IndexError" for msg
    by (simp add: check_id_token_def garbled_session_def user_record_def d)
  have t: "truthy_get garbled_session ''user''" "truthy_get garbled_session ''token_cache''"
    by (simp_all add: truthy_get_def garbled_session_def signed_in_def user_record_def)
  have a: "handle_request splitting_ext (get Admin) garbled_session
             = (garbled_session, error_page 500)"
    by (simp add: handle_request_def view_def admin_def get_def c t)
  have g: "handle_request splitting_ext (get Graph) garbled_session
             = (garbled_session, error_page 500)"
    by (simp add: handle_request_def view_def graph_def get_def c t)
  have u: "garbled_session ''user'' = Some (user_record (PStr ''garbled'') admin_claims)"
    by (simp add: garbled_session_def)
  have n: "\<not> truthy_get (garbled_session(''user'' := None)) ''user''"
    by (simp add: truthy_get_def)
  have i: "snd (handler_response (initiate_auth_code_flow splitting_ext rq
                   (garbled_session(''user'' := None))))
             = redirect (PStr ''https://login.example/authorize'')" for rq
    by (simp add: handler_response_def initiate_auth_code_flow_def get_http_cache_def
          splitting_ext_def sample_ext_simps sample_flow_def garbled_session_def signed_in_def)
  have a': "snd (handle_request splitting_ext (get Admin) (garbled_session(''user'' := None)))
             = redirect (PStr ''https://login.example/authorize'')"
    by (simp add: handle_request_def view_def admin_def get_def n i)
  have g': "snd (handle_request splitting_ext (get Graph) (garbled_session(''user'' := None)))
             = redirect (PStr ''https://login.example/authorize'')"
    by (simp add: handle_request_def view_def graph_def get_def n i)
  have x: "handle_request splitting_ext (get Admin) garbled_session
       \<noteq> handle_request splitting_ext (get Admin) (garbled_session(''user'' := None))"
  proof
    assume "handle_request splitting_ext (get Admin) garbled_session
       = handle_request splitting_ext (get Admin) (garbled_session(''user'' := None))"
    then have "snd (handle_request splitting_ext (get Admin) garbled_session)
       = snd (handle_request splitting_ext (get Admin) (garbled_session(''user'' := None)))"
      by simp
    then show False by (simp add: a a')
  qed
  from d a g u a' g' x show ?thesis by simp
qed

section \<open>The call to Microsoft Graph\<close>

text \<open>
  Claim C9. On \<^verbatim>\<open>/graph\<close>, once the silent acquisition has returned, the
  session's token-cache entry is the serialisation of the cache when the cache reports
  \<^verbatim>\<open>has_state_changed\<close>, and is the entry the request found when it does not:
  the entry is rewritten exactly when the state changed. This holds whatever becomes
  of the rest of the request.
\<close>

theorem graph_cache_write:
  assumes "route rq = Graph"
    and "s ''user'' = Some user"
    and "getitem user ''id_token'' = Inr tok"
    and "decode_id_token lib tok = Inr decoded"
    and "s ''token_cache'' = Some blob"
    and "truthy blob"
    and "deserialize lib (SerializableTokenCache lib) blob = Inr cache"
    and "ConfidentialClientApplication lib (CLIENT_ID lib) (AUTHORITY lib)
           (Some (CLIENT_CREDENTIAL lib)) (Some cache) (get_http_cache s) = (Inr msal_client, http)"
    and "get_accounts lib msal_client cache http = (Inr (account # others, cache'), http')"
    and "acquire_token_silent lib msal_client scopes account cache' http'
           = (Inr (result, cache''), http'')"
  shows "fst (handle_request lib rq s) ''token_cache'' =
           (if has_state_changed lib cache'' then Some (serialize lib cache'') else Some blob)"
proof -
  have t: "truthy_get s ''user''" "truthy_get s ''token_cache''"
    using assms(2,3,5,6) by (simp_all add: truthy_get_def getitem_user_truthy)
  have c: "check_id_token lib ''ID Token expired or invalid'' s = Inr ()"
    using assms(2-4) by (rule check_id_token_ok)
  have a: "acquire_for_graph lib s = call_graph lib result cache'' http'' s"
    using assms(5,7-10) by (simp add: acquire_for_graph_def)
  have v: "view lib rq s = call_graph lib result cache'' http'' s"
    using assms(1) t c a by (simp add: view_def graph_def)
  show ?thesis
    using assms(5) by (simp add: handle_request_frame v call_graph_token_cache)
qed

text \<open>
  The sample, twice: a library whose silent acquisition refreshes the token and marks
  the cache as changed, and one that leaves the flag unset although its cache would
  serialise to another text; the first rewrites the entry, the second leaves it.
\<close>

theorem graph_cache_write_witness:
  "fst (handle_request refreshing_ext (get Graph) signed_in) ''token_cache''
     = Some (PStr ''{at-2}'')
   \<and> fst (handle_request quiet_ext (get Graph) signed_in) ''token_cache''
     = Some (PStr ''{at-1}'')
   \<and> serialize quiet_ext (''{at-1} '', False) = PStr ''{at-1} ''"
proof -
  have 1: "route (get Graph) = Graph"
    by (simp add: get_def)
  have 2: "signed_in ''user'' = Some (user_record (PStr ''valid'') admin_claims)"
    by (simp add: signed_in_def)
  have 3: "getitem (user_record (PStr ''valid'') admin_claims) ''id_token'' = Inr (PStr ''valid'')"
    by (simp add: user_record_def)
  have 5: "signed_in ''token_cache'' = Some (PStr ''{at-1}'')"
    by (simp add: signed_in_def)
  have 6: "truthy (PStr ''{at-1}'')"
    by simp
  have r4: "decode_id_token refreshing_ext (PStr ''valid'') = Inr (PDict [])"
    by (simp add: refreshing_ext_def sample_ext_simps)
  have r7: "deserialize refreshing_ext (SerializableTokenCache refreshing_ext) (PStr ''{at-1}'')
              = Inr (''{at-1}'', False)"
    by (simp add: refreshing_ext_def sample_ext_simps)
  have r8: "ConfidentialClientApplication refreshing_ext (CLIENT_ID refreshing_ext)
              (AUTHORITY refreshing_ext) (Some (CLIENT_CREDENTIAL refreshing_ext))
              (Some (''{at-1}'', False)) (get_http_cache signed_in) = (Inr (), PDict [])"
    by (simp add: refreshing_ext_def sample_ext_simps get_http_cache_def signed_in_def)
  have r9: "get_accounts refreshing_ext () (''{at-1}'', False) (PDict [])
              = (Inr (PDict [(''username'', PStr ''ada'')] # [], (''{at-1}'', False)), PDict [])"
    by (simp add: refreshing_ext_def sample_ext_simps)
  have r10: "acquire_token_silent refreshing_ext () scopes (PDict [(''username'', PStr ''ada'')])
               (''{at-1}'', False) (PDict [])
             = (Inr (PDict [(''access_token'', PStr ''at-2'')], (''{at-2}'', True)), PDict [])"
    by (simp add: refreshing_ext_def)
  have q4: "decode_id_token quiet_ext (PStr ''valid'') = Inr (PDict [])"
    by (simp add: quiet_ext_def sample_ext_simps)
  have q7: "deserialize quiet_ext (SerializableTokenCache quiet_ext) (PStr ''{at-1}'')
              = Inr (''{at-1}'', False)"
    by (simp add: quiet_ext_def sample_ext_simps)
  have q8: "ConfidentialClientApplication quiet_ext (CLIENT_ID quiet_ext)
              (AUTHORITY quiet_ext) (Some (CLIENT_CREDENTIAL quiet_ext))
              (Some (''{at-1}'', False)) (get_http_cache signed_in) = (Inr (), PDict [])"
    by (simp add: quiet_ext_def sample_ext_simps get_http_cache_def signed_in_def)
  have q9: "get_accounts quiet_ext () (''{at-1}'', False) (PDict [])
              = (Inr (PDict [(''username'', PStr ''ada'')] # [], (''{at-1}'', False)), PDict [])"
    by (simp add: quiet_ext_def sample_ext_simps)
  have q10: "acquire_token_silent quiet_ext () scopes (PDict [(''username'', PStr ''ada'')])
               (''{at-1}'', False) (PDict [])
             = (Inr (PDict [(''access_token'', PStr ''at-1'')], (''{at-1} '', False)), PDict [])"
    by (simp add: quiet_ext_def)
  have a: "fst (handle_request refreshing_ext (get Graph) signed_in) ''token_cache''
             = Some (PStr ''{at-2}'')"
    using graph_cache_write [where s = signed_in, OF 1 2 3 r4 5 6 r7 r8 r9 r10]
    by (simp add: refreshing_ext_def sample_ext_simps)
  have b: "fst (handle_request quiet_ext (get Graph) signed_in) ''token_cache''
             = Some (PStr ''{at-1}'')"
    using graph_cache_write [where s = signed_in, OF 1 2 3 q4 5 6 q7 q8 q9 q10]
    by (simp add: quiet_ext_def sample_ext_simps)
  have c: "serialize quiet_ext (''{at-1} '', False) = PStr ''{at-1} ''"
    by (simp add: quiet_ext_def sample_ext_simps)
  from a b c show ?thesis by simp
qed

text \<open>
  Claim C4, as the code has it. On \<^verbatim>\<open>/graph\<close> with a valid session, when the cache
  holds no account, or the silent acquisition returns a result without an access
  token, the handler does not recover by starting a new flow: the subscript raises
  (IndexError on the empty account list, KeyError or TypeError on the result), nothing
  catches it, the response is the server error page, and the session's pending-flow
  and user entries are as the request found them.
\<close>

theorem graph_without_token_fails:
  assumes "route rq = Graph"
    and "s ''user'' = Some user"
    and "getitem user ''id_token'' = Inr tok"
    and "decode_id_token lib tok = Inr decoded"
    and "s ''token_cache'' = Some blob"
    and "truthy blob"
    and "deserialize lib (SerializableTokenCache lib) blob = Inr cache"
    and "ConfidentialClientApplication lib (CLIENT_ID lib) (AUTHORITY lib)
           (Some (CLIENT_CREDENTIAL lib)) (Some cache) (get_http_cache s) = (Inr msal_client, http)"
    and "get_accounts lib msal_client cache http = (Inr ([], cache'), http')
         \<or> (\<exists>account others result cache'' http'' e.
               get_accounts lib msal_client cache http = (Inr (account # others, cache'), http')
               \<and> acquire_token_silent lib msal_client scopes account cache' http'
                   = (Inr (result, cache''), http'')
               \<and> getitem result ''access_token'' = Inl e)"
  shows "snd (handle_request lib rq s) = error_page 500
         \<and> fst (handle_request lib rq s) ''auth_code_flow'' = s ''auth_code_flow''
         \<and> fst (handle_request lib rq s) ''user'' = s ''user''"
proof -
  have t: "truthy_get s ''user''" "truthy_get s ''token_cache''"
    using assms(2,3,5,6) by (simp_all add: truthy_get_def getitem_user_truthy)
  have c: "check_id_token lib ''ID Token expired or invalid'' s = Inr ()"
    using assms(2-4) by (rule check_id_token_ok)
  have v: "view lib rq s = acquire_for_graph lib s"
    using assms(1) t c by (simp add: view_def graph_def)
  from assms(9) show ?thesis
  proof
    assume "get_accounts lib msal_client cache http = (Inr ([], cache'), http')"
    then have "acquire_for_graph lib s = (filled_in_place s http', Inl IndexError)"
      using assms(5,7,8) by (simp add: acquire_for_graph_def)
    then show ?thesis
      by (simp add: handle_request_def v filled_in_place_other)
  next
    assume "\<exists>account others result cache'' http'' e.
               get_accounts lib msal_client cache http = (Inr (account # others, cache'), http')
               \<and> acquire_token_silent lib msal_client scopes account cache' http'
                   = (Inr (result, cache''), http'')
               \<and> getitem result ''access_token'' = Inl e"
    then obtain account others result cache'' http'' e where
      g: "get_accounts lib msal_client cache http = (Inr (account # others, cache'), http')" and
      q: "acquire_token_silent lib msal_client scopes account cache' http'
            = (Inr (result, cache''), http'')" and
      n: "getitem result ''access_token'' = Inl e" by blast
    have a: "acquire_for_graph lib s = call_graph lib result cache'' http'' s"
      using assms(5,7,8) g q by (simp add: acquire_for_graph_def)
    obtain s' where o: "call_graph lib result cache'' http'' s = (s', Inl e)"
      using call_graph_no_token [OF n, of lib cache'' http'' s]
      by (cases "call_graph lib result cache'' http'' s") simp
    have e: "e = KeyError \<or> e = TypeError"
      using call_graph_no_token [OF n, of lib cache'' http'' s] by simp
    have f: "s' ''auth_code_flow'' = s ''auth_code_flow''" "s' ''user'' = s ''user''"
      using call_graph_frame [of "''auth_code_flow''" lib result cache'' http'' s]
        call_graph_frame [of "''user''" lib result cache'' http'' s] o by simp_all
    from e show ?thesis
      by (auto simp add: handle_request_def v a o f)
  qed
qed

text \<open>The sample: the silent acquisition finds no usable token and returns \<^verbatim>\<open>None\<close>.\<close>

theorem graph_without_token_fails_witness:
  "snd (handle_request no_token_ext (get Graph) signed_in) = error_page 500
   \<and> fst (handle_request no_token_ext (get Graph) signed_in) ''auth_code_flow'' = None
   \<and> fst (handle_request no_token_ext (get Graph) signed_in) ''user''
       = Some (user_record (PStr ''valid'') admin_claims)"
proof -
  have 1: "route (get Graph) = Graph"
    by (simp add: get_def)
  have 2: "signed_in ''user'' = Some (user_record (PStr ''valid'') admin_claims)"
    by (simp add: signed_in_def)
  have 3: "getitem (user_record (PStr ''valid'') admin_claims) ''id_token'' = Inr (PStr ''valid'')"
    by (simp add: user_record_def)
  have 4: "decode_id_token no_token_ext (PStr ''valid'') = Inr (PDict [])"
    by (simp add: no_token_ext_def sample_ext_simps)
  have 5: "signed_in ''token_cache'' = Some (PStr ''{at-1}'')"
    by (simp add: signed_in_def)
  have 6: "truthy (PStr ''{at-1}'')"
    by simp
  have 7: "deserialize no_token_ext (SerializableTokenCache no_token_ext) (PStr ''{at-1}'')
              = Inr (''{at-1}'', False)"
    by (simp add: no_token_ext_def sample_ext_simps)
  have 8: "ConfidentialClientApplication no_token_ext (CLIENT_ID no_token_ext)
              (AUTHORITY no_token_ext) (Some (CLIENT_CREDENTIAL no_token_ext))
              (Some (''{at-1}'', False)) (get_http_cache signed_in) = (Inr (), PDict [])"
    by (simp add: no_token_ext_def sample_ext_simps get_http_cache_def signed_in_def)
  have 9: "get_accounts no_token_ext () (''{at-1}'', False) (PDict [])
             = (Inr ([], (''{at-1}'', False)), PDict [])
           \<or> (\<exists>account others result cache'' http'' e.
                get_accounts no_token_ext () (''{at-1}'', False) (PDict [])
                  = (Inr (account # others, (''{at-1}'', False)), PDict [])
                \<and> acquire_token_silent no_token_ext () scopes account (''{at-1}'', False) (PDict [])
                    = (Inr (result, cache''), http'')
                \<and> getitem result ''access_token'' = Inl e)"
    by (auto simp add: no_token_ext_def sample_ext_simps)
  from graph_without_token_fails [where s = signed_in, OF 1 2 3 4 5 6 7 8 9]
  show ?thesis by (simp add: signed_in_def)
qed

text \<open>
  Against the claim as stated: with a valid session and a cache that holds no account,
  \<^verbatim>\<open>/graph\<close> ends with the server error page; no pending flow is stored and the
  response is not the redirect with which a fresh flow would begin. The same happens
  when the silent acquisition returns \<^verbatim>\<open>None\<close>, as it does when neither a valid
  access token nor a usable refresh token is cached.
\<close>

theorem graph_without_token_fails_counterexample:
  "check_id_token no_account_ext ''ID Token expired or invalid'' signed_in = Inr ()
   \<and> fst (get_accounts no_account_ext () (''{at-1}'', False) (PDict []))
       = Inr ([], (''{at-1}'', False))
   \<and> view no_account_ext (get Graph) signed_in = (signed_in, Inl IndexError)
   \<and> snd (handle_request no_account_ext (get Graph) signed_in) = error_page 500
   \<and> fst (handle_request no_account_ext (get Graph) signed_in) ''auth_code_flow'' = None
   \<and> snd (handler_response (initiate_auth_code_flow no_account_ext (get Graph) signed_in))
       = redirect (PStr ''https://login.example/authorize'')
   \<and> view no_token_ext (get Graph) signed_in = (signed_in, Inl TypeError)
   \<and> snd (handle_request no_token_ext (get Graph) signed_in) = error_page 500"
proof -
  have c: "check_id_token no_account_ext ''ID Token expired or invalid'' signed_in = Inr ()"
    by (simp add: check_id_token_def signed_in_def user_record_def no_account_ext_def
          sample_ext_simps)
  have g: "get_accounts no_account_ext () (''{at-1}'', False) (PDict [])
             = (Inr ([], (''{at-1}'', False)), PDict [])"
    by (simp add: no_account_ext_def)
  have t: "signed_in ''token_cache'' = Some (PStr ''{at-1}'')"
    by (simp add: signed_in_def)
  have h: "get_http_cache signed_in = PDict []"
    by (simp add: get_http_cache_def signed_in_def)
  have d: "deserialize no_account_ext (SerializableTokenCache no_account_ext) (PStr ''{at-1}'')
             = Inr (''{at-1}'', False)"
    by (simp add: no_account_ext_def sample_ext_simps)
  have k: "ConfidentialClientApplication no_account_ext cid auth cred cache (PDict [])
             = (Inr (), PDict [])" for cid auth cred cache
    by (simp add: no_account_ext_def sample_ext_simps)
  have a: "acquire_for_graph no_account_ext signed_in
             = (filled_in_place signed_in (PDict []), Inl IndexError)"
    by (simp add: acquire_for_graph_def t h d k g)
  have f: "filled_in_place signed_in (PDict []) = signed_in"
    by (auto simp add: filled_in_place_def signed_in_def fun_eq_iff)
  have v: "view no_account_ext (get Graph) signed_in = (signed_in, Inl IndexError)"
    by (simp add: view_def graph_def get_def c a f) (simp add: truthy_get_def signed_in_def user_record_def)
  have i: "snd (handler_response (initiate_auth_code_flow no_account_ext (get Graph) signed_in))
       = redirect (PStr ''https://login.example/authorize'')"
    by (simp add: handler_response_def initiate_auth_code_flow_def get_http_cache_def
          no_account_ext_def sample_ext_simps sample_flow_def signed_in_def)
  have c': "check_id_token no_token_ext ''ID Token expired or invalid'' signed_in = Inr ()"
    by (simp add: check_id_token_def signed_in_def user_record_def no_token_ext_def
          sample_ext_simps)
  have d': "deserialize no_token_ext (SerializableTokenCache no_token_ext) (PStr ''{at-1}'')
             = Inr (''{at-1}'', False)"
    by (simp add: no_token_ext_def sample_ext_simps)
  have k': "ConfidentialClientApplication no_token_ext cid auth cred cache (PDict [])
             = (Inr (), PDict [])" for cid auth cred cache
    by (simp add: no_token_ext_def sample_ext_simps)
  have g': "get_accounts no_token_ext () (''{at-1}'', False) (PDict [])
             = (Inr ([PDict [(''username'', PStr ''ada'')]], (''{at-1}'', False)), PDict [])"
    by (simp add: no_token_ext_def sample_ext_simps)
  have q': "acquire_token_silent no_token_ext () sc account (''{at-1}'', False) (PDict [])
             = (Inr (PNone, (''{at-1}'', False)), PDict [])" for sc account
    by (simp add: no_token_ext_def)
  have u': "has_state_changed no_token_ext (''{at-1}'', False) = False"
    by (simp add: no_token_ext_def sample_ext_simps)
  have m: "signed_in(''msal_http_response_cache'' \<mapsto> PDict []) = signed_in"
    by (auto simp add: fun_eq_iff signed_in_def)
  have a': "acquire_for_graph no_token_ext signed_in = (signed_in, Inl TypeError)"
    by (simp add: acquire_for_graph_def call_graph_def t h d' k' g' q' u' m)
  have v': "view no_token_ext (get Graph) signed_in = (signed_in, Inl TypeError)"
    by (simp add: view_def graph_def get_def c' a')
       (simp add: truthy_get_def signed_in_def user_record_def)
  from c g v i v' show ?thesis
    by (simp add: handle_request_def) (simp add: signed_in_def)
qed

section \<open>Logout and the invariant\<close>

text \<open>
  Claim C10. Logout removes the user, the pending-flow and the token-cache entries of
  any session, leaves the metadata cache entry and every other entry as they were,
  and answers with a redirect to the index route.
\<close>

theorem logout_clears:
  "route rq = Logout \<Longrightarrow>
     handle_request lib rq s =
       (s(''user'' := None, ''auth_code_flow'' := None, ''token_cache'' := None),
        redirect (PStr (url_rule Index)))
     \<and> fst (handle_request lib rq s) ''msal_http_response_cache'' = s ''msal_http_response_cache''
     \<and> (\<forall>k. k \<noteq> ''user'' \<and> k \<noteq> ''auth_code_flow'' \<and> k \<noteq> ''token_cache''
            \<longrightarrow> fst (handle_request lib rq s) k = s k)"
  by (simp add: handle_request_def view_def logout_def)

text \<open>The sample: a session that holds all four entries and one of another kind.\<close>

theorem logout_clears_witness:
  "snd (handle_request sample_ext (get Logout) crowded_session) = redirect (PStr ''/'')
   \<and> fst (handle_request sample_ext (get Logout) crowded_session) ''user'' = None
   \<and> fst (handle_request sample_ext (get Logout) crowded_session) ''auth_code_flow'' = None
   \<and> fst (handle_request sample_ext (get Logout) crowded_session) ''token_cache'' = None
   \<and> fst (handle_request sample_ext (get Logout) crowded_session) ''msal_http_response_cache''
       = Some (PDict [])
   \<and> fst (handle_request sample_ext (get Logout) crowded_session) ''theme''
       = Some (PStr ''dark'')
   \<and> crowded_session ''user'' = Some (user_record (PStr ''valid'') admin_claims)
   \<and> crowded_session ''auth_code_flow'' = Some (PDict [(''state'', PStr ''old'')])
   \<and> crowded_session ''token_cache'' = Some (PStr ''{at-1}'')"
proof -
  have 1: "route (get Logout) = Logout"
    by (simp add: get_def)
  from logout_clears [where s = crowded_session and lib = sample_ext, OF 1]
  show ?thesis by (simp add: crowded_session_def signed_in_def)
qed

text \<open>
  Claim C8. A pending flow and a user are never both in the session after an
  operation: every request keeps the invariant, so it holds along any sequence of
  requests that starts without both, and so along any sequence that starts with the
  empty session of a new browser. Initiating a flow removes the user entry before
  it stores the flow, the callback consumes the pending flow before it stores the
  user, and logout removes both.
\<close>

theorem flow_and_user_exclusive:
  "(exclusive s \<longrightarrow> exclusive (fst (handle_request lib rq s)) \<and> exclusive (run lib rqs s))
   \<and> exclusive (run lib rqs Map.empty)
   \<and> fst (initiate_auth_code_flow lib rq s) ''user'' = None
   \<and> (s ''auth_code_flow'' \<noteq> None \<longrightarrow> fst (authorized lib rq s) ''auth_code_flow'' = None)
   \<and> exclusive (fst (logout s))"
proof -
  have a: "exclusive s \<longrightarrow> exclusive (fst (handle_request lib rq s)) \<and> exclusive (run lib rqs s)"
    by (simp add: exclusive_handle_request exclusive_run)
  have "exclusive Map.empty"
    by (simp add: exclusive_def)
  then have e: "exclusive (run lib rqs Map.empty)"
    by (rule exclusive_run)
  have b: "fst (initiate_auth_code_flow lib rq s) ''user'' = None"
    by (rule initiate_user)
  have c: "s ''auth_code_flow'' \<noteq> None \<longrightarrow> fst (authorized lib rq s) ''auth_code_flow'' = None"
    by (auto simp add: authorized_consumes_flow)
  have d: "exclusive (fst (logout s))"
    by (simp add: logout_def exclusive_def)
  from a e b c d show ?thesis by blast
qed

text \<open>
  The sample: a browser that asks for \<^verbatim>\<open>/admin\<close>, signs in, reads \<^verbatim>\<open>/graph\<close>,
  lets its ID token expire and asks for \<^verbatim>\<open>/admin\<close> again.
\<close>

theorem flow_and_user_exclusive_witness:
  "exclusive pending_admin
   \<and> exclusive (fst (handle_request sample_ext (get AuthRedirect) pending_admin))
   \<and> exclusive (run sample_ext [get AuthRedirect, get Graph, get Logout, get Admin] pending_admin)
   \<and> fst (initiate_auth_code_flow sample_ext (get Admin) expired_session) ''user'' = None
   \<and> fst (authorized sample_ext (get AuthRedirect) pending_admin) ''auth_code_flow'' = None"
proof -
  have 1: "exclusive pending_admin"
    by (simp add: exclusive_def pending_admin_def)
  have 2: "pending_admin ''auth_code_flow'' \<noteq> None"
    by (simp add: pending_admin_def)
  from flow_and_user_exclusive [where s = pending_admin and lib = sample_ext
      and rq = "get AuthRedirect" and rqs = "[get AuthRedirect, get Graph, get Logout, get Admin]"]
    1 2
  have "exclusive (fst (handle_request sample_ext (get AuthRedirect) pending_admin))
   \<and> exclusive (run sample_ext [get AuthRedirect, get Graph, get Logout, get Admin] pending_admin)
   \<and> fst (authorized sample_ext (get AuthRedirect) pending_admin) ''auth_code_flow'' = None"
    by blast
  with 1 show ?thesis
    by (simp add: initiate_user)
qed

end
